theory Spec2Isabelle
  imports Complex_Main "HOL-Library.Sublist"
begin

section \<open>Python values\<close>

text \<open>
  The exceptions the two modules raise, directly or through the arithmetic and indexing
  they use. Every \<open>raise\<close> of the source is an \<open>Inl\<close> of the model.
\<close>

datatype error =
    IOError string
  | ValueError string
  | EnvironmentError string
  | ZeroDivisionError
  | IndexError

text \<open>
  Python floats are modelled by the reals: the idealisation leaves rounding, infinities
  and NaN out. True division raises on a zero divisor, for floats as for ints.
\<close>

definition py_truediv :: "real \<Rightarrow> real \<Rightarrow> error + real" where
  "py_truediv a b = (if b = 0 then Inl ZeroDivisionError else Inr (a / b))"

text \<open>
  How Python prints a float is not a function of the real number it stands for, so the
  three conversions the command builder uses are parameters of the model:
  \<open>str_float x\<close> is \<open>f"{x}"\<close>, \<open>format_4f x\<close> is \<open>f"{x:.4f}"\<close> and
  \<open>round_4 x\<close> is \<open>round(x, 4)\<close>.
\<close>

record py_format =
  str_float :: "real \<Rightarrow> string"
  format_4f :: "real \<Rightarrow> string"
  round_4 :: "real \<Rightarrow> real"

text \<open>\<open>sep.join(xs)\<close>\<close>

fun join :: "string \<Rightarrow> string list \<Rightarrow> string" where
  "join sep [] = []"
| "join sep [x] = x"
| "join sep (x # y # ys) = x @ sep @ join sep (y # ys)"

text \<open>\<open>xs[-1]\<close>\<close>

definition py_last :: "'a list \<Rightarrow> error + 'a" where
  "py_last xs = (if xs = [] then Inl IndexError else Inr (last xs))"

subsection \<open>\<open>str\<close> of a bytes object\<close>

text \<open>
  \<open>subprocess.run\<close> without \<open>text=True\<close> captures bytes, and \<open>str\<close> of a bytes
  object is its \<open>repr\<close>: the prefix \<open>b\<close>, a quote, every byte printable or escaped,
  and the quote again. The quote is the double quote exactly when the bytes hold a single
  quote and no double quote.
\<close>

definition hexdigit :: "nat \<Rightarrow> char" where
  "hexdigit n = ''0123456789abcdef'' ! n"

definition quote_of :: "string \<Rightarrow> char" where
  "quote_of bs = (if CHR 0x27 \<in> set bs \<and> CHR 0x22 \<notin> set bs then CHR 0x22 else CHR 0x27)"

definition repr_byte :: "char \<Rightarrow> char \<Rightarrow> string" where
  "repr_byte q c =
     (if c = q \<or> c = CHR 0x5C then [CHR 0x5C, c]
      else if c = CHR 0x09 then [CHR 0x5C, CHR ''t'']
      else if c = CHR 0x0A then [CHR 0x5C, CHR ''n'']
      else if c = CHR 0x0D then [CHR 0x5C, CHR ''r'']
      else if (of_char c :: nat) < 0x20 \<or> 0x7F \<le> (of_char c :: nat)
        then [CHR 0x5C, CHR ''x'',
              hexdigit ((of_char c :: nat) div 16), hexdigit ((of_char c :: nat) mod 16)]
      else [c])"

definition str_bytes :: "string \<Rightarrow> string" where
  "str_bytes bs =
     (let q = quote_of bs in CHR ''b'' # q # concat (map (repr_byte q) bs) @ [q])"

subsection \<open>\<open>str.splitlines\<close>\<close>

text \<open>
  The line boundaries of \<open>str.splitlines\<close> that fit in one byte; a carriage return
  followed by a line feed is one boundary, and a boundary at the very end opens no
  further line.
\<close>

definition is_linebreak :: "char \<Rightarrow> bool" where
  "is_linebreak c \<longleftrightarrow>
     c \<in> set [CHR 0x0A, CHR 0x0B, CHR 0x0C, CHR 0x0D, CHR 0x1C, CHR 0x1D, CHR 0x1E, CHR 0x85]"

fun splitlines_from :: "string \<Rightarrow> string \<Rightarrow> string list" where
  "splitlines_from cur [] = (if cur = [] then [] else [rev cur])"
| "splitlines_from cur (c # cs) =
     (case cs of
        c' # cs' \<Rightarrow>
          if c = CHR 0x0D \<and> c' = CHR 0x0A then rev cur # splitlines_from [] cs'
          else if is_linebreak c then rev cur # splitlines_from [] cs
          else splitlines_from (c # cur) cs
      | [] \<Rightarrow>
          if is_linebreak c then [rev cur] else [rev (c # cur)])"

definition splitlines :: "string \<Rightarrow> string list" where
  "splitlines s = splitlines_from [] s"

section \<open>Data model\<close>

text \<open>
  Modelled from the spec: the class \<open>Interval\<close> (unsilence.lib.intervals.Interval) is
  imported by the worker and not part of the sources at hand. The spec gives it as
  \<open>{start, end, is_silent}\<close> with the derived \<open>duration = end - start\<close>. The field
  names carry a prefix because \<open>end\<close> is reserved.
\<close>

record interval =
  interval_start :: real
  interval_end :: real
  is_silent :: bool

definition duration :: "interval \<Rightarrow> real" where
  "duration iv = interval_end iv - interval_start iv"

text \<open>
  The attributes of \<open>render_options\<close> (a \<open>SimpleNamespace\<close>) that the worker reads.
\<close>

record render_options =
  audible_speed :: real
  silent_speed :: real
  audible_volume :: real
  silent_volume :: real
  audio_only :: bool
  drop_corrupted_intervals :: bool
  check_intervals :: bool
  minimum_interval_duration :: real
  interval_in_fade_duration :: real
  interval_out_fade_duration :: real
  fade_curve :: string

text \<open>The attributes of a task (a \<open>SimpleNamespace\<close>) that the worker reads.\<close>

record task =
  interval_output_file :: string
  interval :: interval

section \<open>The command builder (RenderIntervalThread.py)\<close>

text \<open>
  \<open>clamp_speed(duration, speed, minimum_interval_duration)\<close>: both divisions can raise
  \<open>ZeroDivisionError\<close>; the second one is evaluated only in the clamped branch.
\<close>

definition clamp_speed :: "real \<Rightarrow> real \<Rightarrow> real \<Rightarrow> error + real" where
  "clamp_speed dur speed min_dur =
     (case py_truediv dur speed of
        Inl e \<Rightarrow> Inl e
      | Inr q \<Rightarrow> if q < min_dur then py_truediv dur min_dur else Inr speed)"

text \<open>
  \<open>_get_fade_filter(total_duration, interval_in_fade_duration,
  interval_out_fade_duration, fade_curve)\<close>: \<open>res\<close> collects at most two \<open>afade\<close>
  filters, joined by a comma.
\<close>

definition get_fade_filter :: "py_format \<Rightarrow> real \<Rightarrow> real \<Rightarrow> real \<Rightarrow> string \<Rightarrow> string" where
  "get_fade_filter fmt total_duration in_fade out_fade curve =
     (let res = [];
          res = (if in_fade \<noteq> 0
                 then res @ [''afade=t=in:st=0:d='' @ format_4f fmt in_fade
                             @ '':curve='' @ curve]
                 else res);
          res = (if out_fade \<noteq> 0
                 then res @ [''afade=t=out''
                             @ '':st='' @ format_4f fmt (total_duration - out_fade)
                             @ '':d='' @ format_4f fmt out_fade
                             @ '':curve='' @ curve]
                 else res)
      in join '','' res)"

text \<open>
  \<open>_generate_command(interval_output_file, interval, apply_filter,
  minimum_interval_duration)\<close>, with the two attributes of \<open>self\<close> it reads
  (\<open>_input_file\<close>, \<open>_render_options\<close>) as arguments. Paths are the strings
  their \<open>str\<close> gives. The filtered path raises \<open>ZeroDivisionError\<close> where
  \<open>clamp_speed\<close> does, and at \<open>1 / current_speed\<close> when the clamped speed is zero and
  video is kept.
\<close>

definition generate_command ::
  "py_format \<Rightarrow> string \<Rightarrow> render_options \<Rightarrow> string \<Rightarrow> interval \<Rightarrow> bool \<Rightarrow> real
     \<Rightarrow> error + string list" where
  "generate_command fmt input opts output_file iv apply_filter min_dur =
     (let fade = get_fade_filter fmt (duration iv) (interval_in_fade_duration opts)
                   (interval_out_fade_duration opts) (fade_curve opts);
          command =
            [''ffmpeg'',
             ''-ss'', str_float fmt (interval_start iv),
             ''-to'', str_float fmt (interval_end iv),
             ''-i'', input,
             ''-vsync'', ''1'',
             ''-async'', ''1'',
             ''-safe'', ''0'',
             ''-ignore_unknown'', ''-y'']
      in
      if apply_filter then
        (let complex_filter = [];
             current_speed = (if is_silent iv then silent_speed opts else audible_speed opts);
             current_volume = (if is_silent iv then silent_volume opts else audible_volume opts)
         in
         case clamp_speed (duration iv) current_speed min_dur of
           Inl e \<Rightarrow> Inl e
         | Inr current_speed \<Rightarrow>
             (case (if \<not> audio_only opts
                    then (case py_truediv 1 current_speed of
                            Inl e \<Rightarrow> Inl e
                          | Inr factor \<Rightarrow>
                              Inr (complex_filter
                                   @ [''[0:v]setpts='' @ str_float fmt (round_4 fmt factor)
                                      @ ''*PTS[v]'']))
                    else Inr complex_filter) of
                Inl e \<Rightarrow> Inl e
              | Inr complex_filter \<Rightarrow>
                  (let fade = (if fade \<noteq> '''' then fade @ '','' else fade);
                       complex_filter = complex_filter
                         @ [''[0:a]'' @ fade @ ''atempo=''
                            @ str_float fmt (round_4 fmt current_speed)
                            @ '',volume='' @ str_float fmt current_volume @ ''[a]''];
                       command = command @ [''-filter_complex'', join '';'' complex_filter];
                       command = (if \<not> audio_only opts then command @ [''-map'', ''[v]'']
                                  else command);
                       command = command @ [''-map'', ''[a]''];
                       command = command @ [output_file]
                   in Inr command)))
      else
        (let command = (if fade \<noteq> '''' then command @ [''-af'', fade] else command);
             command = (if audio_only opts then command @ [''-vn''] else command);
             command = command @ [output_file]
         in Inr command))"

section \<open>The worker (RenderIntervalThread.py)\<close>

subsection \<open>Processes, the queue, the lock and the callback\<close>

text \<open>
  What \<open>subprocess.run\<close> returns, as far as the worker reads it: the captured bytes of
  stdout (with stderr redirected into it) and the exit code.
\<close>

record completed_process =
  stdout :: string
  returncode :: int

text \<open>
  The external programs (\<open>ffmpeg\<close>, \<open>ffprobe\<close>) are a parameter: a function from the
  command line and the state of the world outside the worker (the files, among others) to
  the completed process and the new state of the world.
\<close>

type_synonym 'w subprocess = "string list \<Rightarrow> 'w \<Rightarrow> completed_process \<times> 'w"

text \<open>
  The state a worker acts on: the world outside, the command lines it has run so far (in
  order), the shared task queue, whether this worker holds \<open>thread_lock\<close>, and the calls
  of the completion callback so far, each with the task, the failed flag and whether the
  worker held the lock at the call.
\<close>

record 'w state =
  world :: 'w
  spawned :: "string list list"
  task_queue :: "task list"
  lock_held :: bool
  completions :: "(task \<times> bool \<times> bool) list"

text \<open>
  The attributes of the worker that its methods read. The callback is optional
  (\<open>kwargs.get("on_task_completed", None)\<close>); its body belongs to the caller, so it is
  a function on the world.
\<close>

record 'w worker =
  input_file :: string
  render_options :: render_options
  on_task_completed :: "(task \<Rightarrow> bool \<Rightarrow> 'w \<Rightarrow> 'w) option"

definition subprocess_run ::
  "'w subprocess \<Rightarrow> string list \<Rightarrow> 'w state \<Rightarrow> completed_process \<times> 'w state" where
  "subprocess_run sp command s =
     (case sp command (world s) of
        (p, w) \<Rightarrow> (p, s\<lparr>world := w, spawned := spawned s @ [command]\<rparr>))"

subsection \<open>Classifying the engine's output\<close>

text \<open>
  \<open>"Conversion failed!" in str(console_output.stdout).splitlines()[-1]\<close> and
  \<open>"Error initializing complex filter" in str(console_output.stdout)\<close>.
\<close>

definition conversion_failed :: "string \<Rightarrow> error + bool" where
  "conversion_failed out =
     (case py_last (splitlines (str_bytes out)) of
        Inl e \<Rightarrow> Inl e
      | Inr line \<Rightarrow> Inr (sublist ''Conversion failed!'' line))"

definition filter_error :: "string \<Rightarrow> bool" where
  "filter_error out \<longleftrightarrow> sublist ''Error initializing complex filter'' (str_bytes out)"

subsection \<open>Rendering one interval\<close>

text \<open>
  \<open>_render_interval(interval_output_file, interval, apply_filter,
  drop_corrupted_intervals, minimum_interval_duration)\<close>. The result of the recursive
  call is discarded, as in the source: only its exception propagates, and the check for
  the filter error that follows reads the output of the attempt of this call.
  \<open>check_filter_error\<close> is the end of the method, from the second \<open>if\<close> on.
\<close>

definition check_filter_error :: "string \<Rightarrow> 'w state \<Rightarrow> (error + bool) \<times> 'w state" where
  "check_filter_error out s =
     (if filter_error out then (Inl (ValueError ''Invalid render options''), s)
      else (Inr True, s))"

function render_interval ::
  "py_format \<Rightarrow> 'w subprocess \<Rightarrow> 'w worker \<Rightarrow> string \<Rightarrow> interval \<Rightarrow> bool \<Rightarrow> bool \<Rightarrow> real
     \<Rightarrow> 'w state \<Rightarrow> (error + bool) \<times> 'w state" where
  "render_interval fmt sp self output_file iv apply_filter drop_corrupted min_dur s =
     (case generate_command fmt (input_file self) (render_options self) output_file iv
             apply_filter min_dur of
        Inl e \<Rightarrow> (Inl e, s)
      | Inr command \<Rightarrow>
          (case subprocess_run sp command s of
             (console_output, s1) \<Rightarrow>
               (case conversion_failed (stdout console_output) of
                  Inl e \<Rightarrow> (Inl e, s1)
                | Inr failed \<Rightarrow>
                    if failed then
                      (if drop_corrupted then (Inr False, s1)
                       else if apply_filter then
                         (case render_interval fmt sp self output_file iv False
                                 drop_corrupted min_dur s1 of
                            (Inl e, s2) \<Rightarrow> (Inl e, s2)
                          | (Inr _, s2) \<Rightarrow> check_filter_error (stdout console_output) s2)
                       else
                         (Inl (IOError (''Input file is corrupted between ''
                            @ str_float fmt (interval_start iv) @ '' and ''
                            @ str_float fmt (interval_end iv) @ '' (in seconds)'')),
                          s1))
                    else check_filter_error (stdout console_output) s1)))"
  by pat_completeness auto
termination
  by (relation "measure (\<lambda>(fmt, sp, self, output_file, iv, apply_filter, rest).
                           if apply_filter then 1 else 0)") auto

subsection \<open>The worker's loop\<close>

text \<open>
  One pass through the body of the \<open>while\<close> loop of \<open>run\<close>: take the lock, take a
  task if there is one, release the lock, render, probe, report.
\<close>

definition run_iteration ::
  "py_format \<Rightarrow> 'w subprocess \<Rightarrow> 'w worker \<Rightarrow> 'w state \<Rightarrow> (error + unit) \<times> 'w state" where
  "run_iteration fmt sp self s0 =
     (let s = s0\<lparr>lock_held := True\<rparr> in
      case task_queue s of
        [] \<Rightarrow> (Inr (), s\<lparr>lock_held := False\<rparr>)
      | task # rest \<Rightarrow>
          (let s = s\<lparr>task_queue := rest\<rparr>;
               s = s\<lparr>lock_held := False\<rparr>
           in
           case render_interval fmt sp self (interval_output_file task) (interval task) True
                  (drop_corrupted_intervals (render_options self))
                  (minimum_interval_duration (render_options self)) s of
             (Inl e, s) \<Rightarrow> (Inl e, s)
           | (Inr completed, s) \<Rightarrow>
               (case (if completed \<and> check_intervals (render_options self)
                      then (case subprocess_run sp
                                   [''ffprobe'',
                                    ''-loglevel'', ''quiet'',
                                    interval_output_file task] s of
                              (probe_output, s) \<Rightarrow> (returncode probe_output = 0, s))
                      else (completed, s)) of
                  (completed, s) \<Rightarrow>
                    (case on_task_completed self of
                       Some callback \<Rightarrow>
                         (Inr (),
                          s\<lparr>world := callback task (\<not> completed) (world s),
                            completions :=
                              completions s @ [(task, \<not> completed, lock_held s)]\<rparr>)
                     | None \<Rightarrow> (Inr (), s)))))"

text \<open>
  The loop itself. \<open>_should_exit\<close> is set by another thread (\<open>stop\<close>); the first
  argument counts the tests of the loop condition that still read it as false. An
  exception leaves the loop, and the thread with it.
\<close>

fun run ::
  "nat \<Rightarrow> py_format \<Rightarrow> 'w subprocess \<Rightarrow> 'w worker \<Rightarrow> 'w state \<Rightarrow> (error + unit) \<times> 'w state" where
  "run 0 fmt sp self s = (Inr (), s)"
| "run (Suc n) fmt sp self s =
     (case run_iteration fmt sp self s of
        (Inl e, s') \<Rightarrow> (Inl e, s')
      | (Inr _, s') \<Rightarrow> run n fmt sp self s')"

section \<open>The session facade (Unsilence.py)\<close>

text \<open>
  The attributes of an \<open>Unsilence\<close> object. The collection of intervals is of a class
  the facade only stores and passes on, so its type is a parameter; \<open>None\<close> is the
  value \<open>__init__\<close> gives it.
\<close>

record 'ivs unsilence =
  session_input_file :: string
  session_temp_dir :: string
  session_intervals :: "'ivs option"

text \<open>
  What \<open>__init__\<close> does to the interpreter: the lines printed to \<open>sys.stderr\<close> and
  the temporary directories whose \<open>cleanup\<close> is registered with \<open>atexit\<close>.
\<close>

record interpreter =
  stderr :: "string list"
  atexit :: "string list"

text \<open>
  \<open>__init__(input_file, temp_dir)\<close>. The first argument is the string that
  \<open>is_ffmpeg_usable()\<close> returns (unsilence.lib.tools.ffmpeg_version, not part of the
  sources at hand).
\<close>

definition unsilence_init ::
  "string \<Rightarrow> string \<Rightarrow> string \<Rightarrow> interpreter \<Rightarrow> (error + 'ivs unsilence) \<times> interpreter" where
  "unsilence_init ffmpeg_status input temp env =
     (if ffmpeg_status = ''not_detected''
        then (Inl (EnvironmentError ''ffmpeg not found!''), env)
      else if ffmpeg_status = ''requirements_unsatisfied''
        then (Inl (EnvironmentError
                ''ffmpeg version not supported, a version >= 4.2.4 is required!''), env)
      else
        (let env = (if ffmpeg_status = ''unknown_version''
                    then env\<lparr>stderr := stderr env @
                      [''Could not detect ffmpeg version, proceed at your own risk! (version >= 4.2.4 required)'']\<rparr>
                    else env)
         in (Inr \<lparr>session_input_file = input, session_temp_dir = temp,
                   session_intervals = None\<rparr>,
             env\<lparr>atexit := atexit env @ [temp]\<rparr>)))"

text \<open>
  The collaborators \<open>detect_silence\<close>, \<open>calculate_time\<close> and
  \<open>MediaRenderer(...).render\<close> are parameters: functions on a world \<open>'w\<close> that end
  in an exception of their own (\<open>Inl\<close>) or a result (\<open>Inr\<close>). A method of the
  facade returns \<open>Inl\<close> for an exception it raises itself, and \<open>Inr\<close> of the
  collaborator's outcome otherwise.
\<close>

definition detect_silence ::
  "(string \<Rightarrow> 'k \<Rightarrow> 'w \<Rightarrow> ('x + 'ivs) \<times> 'w) \<Rightarrow> 'ivs unsilence \<Rightarrow> 'k \<Rightarrow> 'w
     \<Rightarrow> (error + 'x + 'ivs) \<times> 'ivs unsilence \<times> 'w" where
  "detect_silence detect self kwargs w =
     (case detect (session_input_file self) kwargs w of
        (Inl x, w') \<Rightarrow> (Inr (Inl x), self, w')
      | (Inr ivs, w') \<Rightarrow> (Inr (Inr ivs), self\<lparr>session_intervals := Some ivs\<rparr>, w'))"

definition set_intervals :: "'ivs unsilence \<Rightarrow> 'ivs \<Rightarrow> 'ivs unsilence" where
  "set_intervals self ivs = self\<lparr>session_intervals := Some ivs\<rparr>"

definition get_intervals :: "'ivs unsilence \<Rightarrow> 'ivs option" where
  "get_intervals self = session_intervals self"

definition estimate_time ::
  "('ivs \<Rightarrow> real \<Rightarrow> real \<Rightarrow> 'w \<Rightarrow> ('x + 'r) \<times> 'w) \<Rightarrow> 'ivs unsilence \<Rightarrow> real \<Rightarrow> real \<Rightarrow> 'w
     \<Rightarrow> (error + 'x + 'r) \<times> 'w" where
  "estimate_time calculate_time self audible silent w =
     (case session_intervals self of
        None \<Rightarrow>
          (Inl (ValueError
             ''Silence detection was not yet run and no intervals where given manually!''), w)
      | Some ivs \<Rightarrow>
          (case calculate_time ivs audible silent w of (r, w') \<Rightarrow> (Inr r, w')))"

definition render_media ::
  "(string \<Rightarrow> string \<Rightarrow> string \<Rightarrow> 'ivs \<Rightarrow> 'k \<Rightarrow> 'w \<Rightarrow> ('x + 'r) \<times> 'w) \<Rightarrow> 'ivs unsilence \<Rightarrow> string
     \<Rightarrow> 'k \<Rightarrow> 'w \<Rightarrow> (error + 'x + unit) \<times> 'w" where
  "render_media render self output_file kwargs w =
     (case session_intervals self of
        None \<Rightarrow>
          (Inl (ValueError
             ''Silence detection was not yet run and no intervals where given manually!''), w)
      | Some ivs \<Rightarrow>
          (case render (session_temp_dir self) (session_input_file self) output_file ivs
                  kwargs w of
             (Inl x, w') \<Rightarrow> (Inr (Inl x), w')
           | (Inr _, w') \<Rightarrow> (Inr (Inr ()), w')))"

section \<open>The filter graph as the specification describes it\<close>

text \<open>
  The specification's account of the filtered path, written down independently of the
  builder: a video stage that scales the timestamps by the inverse of the speed; an audio
  stage that chains the optional fade-in (from time 0), the optional fade-out (starting at
  the given time), the tempo stage and the gain stage, in this order; the stages joined
  into one graph.
\<close>

definition spec_video_stage :: "py_format \<Rightarrow> real \<Rightarrow> string" where
  "spec_video_stage fmt speed =
     ''[0:v]setpts='' @ str_float fmt (round_4 fmt (1 / speed)) @ ''*PTS[v]''"

definition spec_fade_in :: "py_format \<Rightarrow> real \<Rightarrow> string \<Rightarrow> string" where
  "spec_fade_in fmt d curve = ''afade=t=in:st=0:d='' @ format_4f fmt d @ '':curve='' @ curve"

definition spec_fade_out :: "py_format \<Rightarrow> real \<Rightarrow> real \<Rightarrow> string \<Rightarrow> string" where
  "spec_fade_out fmt st d curve =
     ''afade=t=out:st='' @ format_4f fmt st @ '':d='' @ format_4f fmt d @ '':curve='' @ curve"

definition spec_audio_chain :: "py_format \<Rightarrow> render_options \<Rightarrow> interval \<Rightarrow> real \<Rightarrow> real \<Rightarrow> string list" where
  "spec_audio_chain fmt opts iv speed volume =
     (if interval_in_fade_duration opts \<noteq> 0
      then [spec_fade_in fmt (interval_in_fade_duration opts) (fade_curve opts)] else [])
     @ (if interval_out_fade_duration opts \<noteq> 0
        then [spec_fade_out fmt (duration iv - interval_out_fade_duration opts)
                (interval_out_fade_duration opts) (fade_curve opts)] else [])
     @ [''atempo='' @ str_float fmt (round_4 fmt speed),
        ''volume='' @ str_float fmt volume]"

definition spec_filter_graph :: "py_format \<Rightarrow> render_options \<Rightarrow> interval \<Rightarrow> real \<Rightarrow> real \<Rightarrow> string" where
  "spec_filter_graph fmt opts iv speed volume =
     join '';''
       ((if audio_only opts then [] else [spec_video_stage fmt speed])
        @ [''[0:a]'' @ join '','' (spec_audio_chain fmt opts iv speed volume) @ ''[a]''])"

section \<open>Sample inputs\<close>

text \<open>
  Concrete inputs on which the model is evaluated. \<open>sample_format\<close> prints the numbers
  of the samples as Python does (\<open>str(0.125) = '0.125'\<close>,
  \<open>f"{1.5:.4f}" = '1.5000'\<close>, \<open>round(8.0, 4) = 8.0\<close>, and so on); on other numbers
  it is a placeholder.
\<close>

definition sample_format :: py_format where
  "sample_format =
     \<lparr>str_float = (\<lambda>x. if x = 0 then ''0.0'' else if x = 2 then ''2.0''
                       else if x = 8 then ''8.0'' else if x = 1 / 8 then ''0.125''
                       else if x = 1 / 2 then ''0.5'' else ''1.0''),
      format_4f = (\<lambda>x. if x = 1 / 2 then ''0.5000'' else if x = 3 / 2 then ''1.5000''
                       else ''0.0000''),
      round_4 = (\<lambda>x. x)\<rparr>"

definition sample_options :: render_options where
  "sample_options =
     \<lparr>audible_speed = 1, silent_speed = 10, audible_volume = 1, silent_volume = 1 / 2,
      audio_only = False, drop_corrupted_intervals = False, check_intervals = False,
      minimum_interval_duration = 1 / 4, interval_in_fade_duration = 0,
      interval_out_fade_duration = 1 / 2, fade_curve = ''tri''\<rparr>"

definition sample_interval :: interval where
  "sample_interval = \<lparr>interval_start = 0, interval_end = 2, is_silent = True\<rparr>"

definition sample_task :: task where
  "sample_task = \<lparr>interval_output_file = ''out_0.mp4'', interval = sample_interval\<rparr>"

definition sample_filtered :: "string list" where
  "sample_filtered =
     [''ffmpeg'', ''-ss'', ''0.0'', ''-to'', ''2.0'', ''-i'', ''in.mp4'',
      ''-vsync'', ''1'', ''-async'', ''1'', ''-safe'', ''0'', ''-ignore_unknown'', ''-y'',
      ''-filter_complex'',
      ''[0:v]setpts=0.125*PTS[v];[0:a]afade=t=out:st=1.5000:d=0.5000:curve=tri,atempo=8.0,volume=0.5[a]'',
      ''-map'', ''[v]'', ''-map'', ''[a]'', ''out_0.mp4'']"

definition sample_raw :: "string list" where
  "sample_raw =
     [''ffmpeg'', ''-ss'', ''0.0'', ''-to'', ''2.0'', ''-i'', ''in.mp4'',
      ''-vsync'', ''1'', ''-async'', ''1'', ''-safe'', ''0'', ''-ignore_unknown'', ''-y'',
      ''-af'', ''afade=t=out:st=1.5000:d=0.5000:curve=tri'', ''out_0.mp4'']"

definition sample_probe :: "string list" where
  "sample_probe = [''ffprobe'', ''-loglevel'', ''quiet'', ''out_0.mp4'']"

text \<open>
  Engine outputs with the conversion-failure marker, the filter-error marker, both, and
  neither.
\<close>

definition conversion_output :: string where
  "conversion_output = ''Error while decoding stream #0:0\<newline>Conversion failed!\<newline>''"

definition filter_output :: string where
  "filter_output = ''Error initializing complex filters.\<newline>Invalid argument\<newline>''"

definition both_output :: string where
  "both_output = ''Error initializing complex filters.\<newline>Conversion failed!\<newline>''"

definition clean_output :: string where
  "clean_output = ''video:12kB audio:31kB\<newline>''"

text \<open>
  An engine whose world is the number of processes run so far: it answers a filtered
  command, a raw command and a probe with the given outputs and exit code.
\<close>

definition sample_engine :: "string \<Rightarrow> string \<Rightarrow> int \<Rightarrow> nat subprocess" where
  "sample_engine filtered_out raw_out probe_code command w =
     (if command \<noteq> [] \<and> hd command = ''ffprobe''
        then \<lparr>stdout = [], returncode = probe_code\<rparr>
      else if ''-filter_complex'' \<in> set command
        then \<lparr>stdout = filtered_out, returncode = (if filtered_out = clean_output then 0 else 1)\<rparr>
      else \<lparr>stdout = raw_out, returncode = (if raw_out = clean_output then 0 else 1)\<rparr>,
      Suc w)"

text \<open>A callback that adds 100 to the world for a failed task and 10 for a completed one.\<close>

definition sample_callback :: "task \<Rightarrow> bool \<Rightarrow> nat \<Rightarrow> nat" where
  "sample_callback t failed w = (if failed then w + 100 else w + 10)"

definition sample_worker :: "bool \<Rightarrow> bool \<Rightarrow> nat worker" where
  "sample_worker drop_corrupted check =
     \<lparr>input_file = ''in.mp4'',
      render_options = sample_options\<lparr>drop_corrupted_intervals := drop_corrupted,
                                       check_intervals := check\<rparr>,
      on_task_completed = Some sample_callback\<rparr>"

definition sample_state :: "nat state" where
  "sample_state =
     \<lparr>world = 0, spawned = [], task_queue = [sample_task], lock_held = False,
      completions = []\<rparr>"

text \<open>A second task for the same interval, and a queue holding both.\<close>

definition sample_task2 :: task where
  "sample_task2 = \<lparr>interval_output_file = ''out_1.mp4'', interval = sample_interval\<rparr>"

definition sample_filtered2 :: "string list" where
  "sample_filtered2 = butlast sample_filtered @ [''out_1.mp4'']"

definition sample_state2 :: "nat state" where
  "sample_state2 = sample_state\<lparr>task_queue := [sample_task, sample_task2]\<rparr>"

text \<open>
  Stand-ins for the collaborators of the facade, on a world that counts their calls: a
  time calculation that returns the total duration, and a renderer that returns nothing.
\<close>

definition sample_calculate_time ::
  "interval list \<Rightarrow> real \<Rightarrow> real \<Rightarrow> nat \<Rightarrow> (error + real) \<times> nat" where
  "sample_calculate_time ivs audible silent w = (Inr (sum_list (map duration ivs)), Suc w)"

definition sample_render ::
  "string \<Rightarrow> string \<Rightarrow> string \<Rightarrow> interval list \<Rightarrow> unit \<Rightarrow> nat \<Rightarrow> (error + unit) \<times> nat" where
  "sample_render temp input output_file ivs kwargs w = (Inr (), Suc w)"

definition sample_session :: "interval list unsilence" where
  "sample_session =
     \<lparr>session_input_file = ''in.mp4'', session_temp_dir = ''.tmp'',
      session_intervals = None\<rparr>"

section \<open>Lemmas about the model\<close>

subsection \<open>The classification never fails\<close>

lemma splitlines_from_nonempty: "s \<noteq> [] \<Longrightarrow> splitlines_from cur s \<noteq> []"
proof (induction s arbitrary: cur)
  case Nil
  then show ?case by simp
next
  case (Cons c cs)
  show ?case
  proof (cases cs)
    case Nil
    then show ?thesis by simp
  next
    case (Cons c' cs')
    with Cons.IH [of "c # cur"] show ?thesis by simp
  qed
qed

lemma splitlines_str_bytes: "splitlines (str_bytes out) \<noteq> []"
  unfolding splitlines_def
  by (rule splitlines_from_nonempty) (simp add: str_bytes_def Let_def)

lemma conversion_failed_eq:
  "conversion_failed out = Inr (sublist ''Conversion failed!'' (last (splitlines (str_bytes out))))"
  by (simp add: conversion_failed_def py_last_def splitlines_str_bytes)

lemma conversion_failed_cases:
  "conversion_failed out = Inr True \<or> conversion_failed out = Inr False"
  by (simp add: conversion_failed_eq)

subsection \<open>The two paths of \<open>render_interval\<close>\<close>

declare render_interval.simps [simp del]

lemma generate_command_raw:
  "\<exists>command. generate_command fmt input opts output_file iv False min_dur = Inr command"
  by (simp add: generate_command_def Let_def)

lemma render_interval_raw:
  assumes "generate_command fmt (input_file self) (render_options self) output_file iv
             False min_dur = Inr command"
    and "sp command (world s) = (p, w)"
  shows "render_interval fmt sp self output_file iv False drop_corrupted min_dur s =
           (if conversion_failed (stdout p) = Inr True then
              (if drop_corrupted
               then (Inr False, s\<lparr>world := w, spawned := spawned s @ [command]\<rparr>)
               else (Inl (IOError (''Input file is corrupted between ''
                            @ str_float fmt (interval_start iv) @ '' and ''
                            @ str_float fmt (interval_end iv) @ '' (in seconds)'')),
                     s\<lparr>world := w, spawned := spawned s @ [command]\<rparr>))
            else check_filter_error (stdout p)
                   (s\<lparr>world := w, spawned := spawned s @ [command]\<rparr>))"
  using assms conversion_failed_cases [of "stdout p"]
  by (auto simp add: render_interval.simps [of _ _ _ _ _ False] subprocess_run_def)

lemma render_interval_filtered:
  assumes "generate_command fmt (input_file self) (render_options self) output_file iv
             True min_dur = Inr command"
    and "sp command (world s) = (p, w)"
  shows "render_interval fmt sp self output_file iv True drop_corrupted min_dur s =
           (if conversion_failed (stdout p) = Inr True then
              (if drop_corrupted
               then (Inr False, s\<lparr>world := w, spawned := spawned s @ [command]\<rparr>)
               else (case render_interval fmt sp self output_file iv False drop_corrupted min_dur
                            (s\<lparr>world := w, spawned := spawned s @ [command]\<rparr>) of
                       (Inl e, s2) \<Rightarrow> (Inl e, s2)
                     | (Inr _, s2) \<Rightarrow> check_filter_error (stdout p) s2))
            else check_filter_error (stdout p)
                   (s\<lparr>world := w, spawned := spawned s @ [command]\<rparr>))"
  using assms conversion_failed_cases [of "stdout p"]
  by (auto simp add: render_interval.simps [of _ _ _ _ _ True] subprocess_run_def)


lemma render_interval_retry:
  assumes "generate_command fmt (input_file self) (render_options self) output_file iv
             True min_dur = Inr filtered"
    and "generate_command fmt (input_file self) (render_options self) output_file iv
             False min_dur = Inr raw"
    and "sp filtered (world s) = (p1, w1)"
    and "conversion_failed (stdout p1) = Inr True"
    and "sp raw w1 = (p2, w2)"
  shows "render_interval fmt sp self output_file iv True False min_dur s =
           (if conversion_failed (stdout p2) = Inr True
              then Inl (IOError (''Input file is corrupted between ''
                     @ str_float fmt (interval_start iv) @ '' and ''
                     @ str_float fmt (interval_end iv) @ '' (in seconds)''))
            else if filter_error (stdout p2) \<or> filter_error (stdout p1)
              then Inl (ValueError ''Invalid render options'')
            else Inr True,
            s\<lparr>world := w2, spawned := spawned s @ [filtered, raw]\<rparr>)"
proof -
  let ?s1 = "s\<lparr>world := w1, spawned := spawned s @ [filtered]\<rparr>"
  have pw2: "sp raw (world ?s1) = (p2, w2)"
    using assms(5) by simp
  show ?thesis
    unfolding render_interval_filtered [where sp = sp and s = s, OF assms(1) assms(3)]
      render_interval_raw [where sp = sp and s = ?s1, OF assms(2) pw2]
    using assms(4) by (simp add: check_filter_error_def)
qed

lemma check_filter_error_state: "snd (check_filter_error out s) = s"
  by (simp add: check_filter_error_def)

lemma render_interval_raw_frame:
  assumes "render_interval fmt sp self output_file iv False drop_corrupted min_dur s = (r, s')"
  shows "task_queue s' = task_queue s \<and> lock_held s' = lock_held s
         \<and> completions s' = completions s"
proof -
  obtain command where c: "generate_command fmt (input_file self) (render_options self)
      output_file iv False min_dur = Inr command"
    using generate_command_raw by blast
  obtain p w where pw: "sp command (world s) = (p, w)"
    by (cases "sp command (world s)")
  show ?thesis
    using assms unfolding render_interval_raw [where sp = sp and s = s, OF c pw]
    by (auto simp add: check_filter_error_def split: if_splits)
qed

lemma render_interval_frame:
  assumes "render_interval fmt sp self output_file iv apply_filter drop_corrupted min_dur s
             = (r, s')"
  shows "task_queue s' = task_queue s \<and> lock_held s' = lock_held s
         \<and> completions s' = completions s"
proof (cases apply_filter)
  case False
  with assms show ?thesis by (simp add: render_interval_raw_frame)
next
  case True
  show ?thesis
  proof (cases "generate_command fmt (input_file self) (render_options self)
      output_file iv True min_dur")
    case (Inl e)
    with assms True show ?thesis by (simp add: render_interval.simps [of _ _ _ _ _ True])
  next
    case (Inr command)
    obtain p w where pw: "sp command (world s) = (p, w)"
      by (cases "sp command (world s)")
    let ?s1 = "s\<lparr>world := w, spawned := spawned s @ [command]\<rparr>"
    obtain r2 s2 where n: "render_interval fmt sp self output_file iv False drop_corrupted
        min_dur ?s1 = (r2, s2)"
      by (cases "render_interval fmt sp self output_file iv False drop_corrupted min_dur ?s1")
    from render_interval_raw_frame [OF n]
    have f2: "task_queue s2 = task_queue s \<and> lock_held s2 = lock_held s
         \<and> completions s2 = completions s" by simp
    from assms True
    have "render_interval fmt sp self output_file iv True drop_corrupted min_dur s = (r, s')"
      by simp
    then show ?thesis
      using f2 unfolding render_interval_filtered [where sp = sp and s = s, OF Inr pw] n
      by (auto simp add: check_filter_error_def split: if_splits sum.splits)
  qed
qed


subsection \<open>The loop\<close>

lemma run_one_pass: "run (Suc 0) fmt sp self s = run_iteration fmt sp self s"
  by (simp split: prod.splits sum.splits)

subsection \<open>The shape of the generated command\<close>

lemma get_fade_filter_chain:
  "get_fade_filter fmt total_duration in_fade out_fade curve =
     join '',''
       ((if in_fade \<noteq> 0 then [spec_fade_in fmt in_fade curve] else [])
        @ (if out_fade \<noteq> 0 then [spec_fade_out fmt (total_duration - out_fade) out_fade curve]
           else []))"
  by (simp add: get_fade_filter_def spec_fade_in_def spec_fade_out_def)

lemma generate_command_filtered:
  assumes "clamp_speed (duration iv)
             (if is_silent iv then silent_speed opts else audible_speed opts) min_dur
           = Inr speed"
    and "audio_only opts \<or> speed \<noteq> 0"
  shows "generate_command fmt input opts output_file iv True min_dur =
           Inr ([''ffmpeg'',
                 ''-ss'', str_float fmt (interval_start iv),
                 ''-to'', str_float fmt (interval_end iv),
                 ''-i'', input,
                 ''-vsync'', ''1'', ''-async'', ''1'', ''-safe'', ''0'',
                 ''-ignore_unknown'', ''-y'']
                @ [''-filter_complex'',
                   spec_filter_graph fmt opts iv speed
                     (if is_silent iv then silent_volume opts else audible_volume opts)]
                @ (if audio_only opts then [] else [''-map'', ''[v]''])
                @ [''-map'', ''[a]'', output_file])"
  using assms
  by (auto simp add: generate_command_def get_fade_filter_chain spec_filter_graph_def
      spec_audio_chain_def spec_video_stage_def spec_fade_in_def spec_fade_out_def
      py_truediv_def Let_def)

lemma generate_command_filtered_error:
  assumes "generate_command fmt input opts output_file iv True min_dur = Inr command"
  obtains speed where
    "clamp_speed (duration iv)
       (if is_silent iv then silent_speed opts else audible_speed opts) min_dur = Inr speed"
    and "audio_only opts \<or> speed \<noteq> 0"
  using assms
  by (auto simp add: generate_command_def py_truediv_def Let_def
      split: sum.splits if_splits)

lemma generate_command_unfiltered:
  "generate_command fmt input opts output_file iv False min_dur =
     Inr ([''ffmpeg'',
           ''-ss'', str_float fmt (interval_start iv),
           ''-to'', str_float fmt (interval_end iv),
           ''-i'', input,
           ''-vsync'', ''1'', ''-async'', ''1'', ''-safe'', ''0'',
           ''-ignore_unknown'', ''-y'']
          @ (let fade = get_fade_filter fmt (duration iv) (interval_in_fade_duration opts)
                          (interval_out_fade_duration opts) (fade_curve opts)
             in if fade \<noteq> [] then [''-af'', fade] else [])
          @ (if audio_only opts then [''-vn''] else [])
          @ [output_file])"
  by (simp add: generate_command_def Let_def)

lemma clamp_speed_positive:
  assumes "0 < dur" and "0 < speed" and "0 < min_dur"
  shows "\<exists>clamped. clamp_speed dur speed min_dur = Inr clamped \<and> 0 < clamped"
  using assms by (simp add: clamp_speed_def py_truediv_def)

subsection \<open>The sample inputs\<close>

lemma sample_filtered_command:
  "generate_command sample_format (input_file (sample_worker d c))
     (render_options (sample_worker d c)) (interval_output_file sample_task)
     (interval sample_task) True
     (minimum_interval_duration (render_options (sample_worker d c))) = Inr sample_filtered"
  by (simp add: generate_command_def get_fade_filter_def clamp_speed_def py_truediv_def
      duration_def sample_format_def sample_options_def sample_filtered_def
      sample_worker_def sample_task_def sample_interval_def)

lemma sample_raw_command:
  "generate_command sample_format (input_file (sample_worker d c))
     (render_options (sample_worker d c)) (interval_output_file sample_task)
     (interval sample_task) False
     (minimum_interval_duration (render_options (sample_worker d c))) = Inr sample_raw"
  by (simp add: generate_command_def get_fade_filter_def clamp_speed_def py_truediv_def
      duration_def sample_format_def sample_options_def sample_raw_def
      sample_worker_def sample_task_def sample_interval_def)

lemma sample_engine_filtered:
  "sample_engine f r c sample_filtered w =
     (\<lparr>stdout = f, returncode = (if f = clean_output then 0 else 1)\<rparr>, Suc w)"
  by (simp add: sample_engine_def sample_filtered_def)

lemma sample_engine_raw:
  "sample_engine f r c sample_raw w =
     (\<lparr>stdout = r, returncode = (if r = clean_output then 0 else 1)\<rparr>, Suc w)"
  by (simp add: sample_engine_def sample_raw_def)

lemma sample_engine_probe:
  "sample_engine f r c sample_probe w = (\<lparr>stdout = [], returncode = c\<rparr>, Suc w)"
  by (simp add: sample_engine_def sample_probe_def)

lemma sample_outputs:
  "conversion_failed conversion_output = Inr True"
  "filter_error conversion_output = False"
  "conversion_failed filter_output = Inr False"
  "filter_error filter_output = True"
  "conversion_failed both_output = Inr True"
  "filter_error both_output = True"
  "conversion_failed clean_output = Inr False"
  "filter_error clean_output = False"
  by code_simp+

section \<open>Properties\<close>

subsection \<open>Speed clamp\<close>

text \<open>
  C4. For positive duration, speed and minimum duration, \<open>clamp_speed\<close> raises nothing
  and returns \<open>duration / min_duration\<close> when \<open>duration / speed < min_duration\<close>, and
  \<open>speed\<close> unchanged otherwise. In particular \<open>clamp_speed(1.0, 10.0, 0.25) = 4.0\<close>
  and \<open>clamp_speed(1.0, 2.0, 0.25) = 2.0\<close>.
\<close>

theorem clamp_speed_cases:
  assumes "0 < dur" and "0 < speed" and "0 < min_dur"
  shows "clamp_speed dur speed min_dur =
           Inr (if dur / speed < min_dur then dur / min_dur else speed)
         \<and> clamp_speed 1 10 (1 / 4) = Inr 4
         \<and> clamp_speed 1 2 (1 / 4) = Inr 2"
  using assms by (simp add: clamp_speed_def py_truediv_def)

theorem clamp_speed_cases_witness:
  "(0::real) < 3 \<and> (0::real) < 6 \<and> (0::real) < 1 / 4
   \<and> clamp_speed 3 6 (1 / 4) = Inr 6
   \<and> clamp_speed 1 10 (1 / 4) = Inr 4
   \<and> clamp_speed 1 2 (1 / 4) = Inr 2"
  using clamp_speed_cases [of 3 6 "1 / 4"] by simp

subsection \<open>Dropping a corrupted interval\<close>

text \<open>
  C5. When the filtered attempt of a task reports a conversion failure and
  \<open>drop_corrupted_intervals\<close> is set, the pass through the loop ends without an
  exception; the filtered command is the only process run (no raw retry, no probe); the
  installed callback is called once, with the task and the failed flag set, while the lock
  is not held. The loop goes on: stopped after this pass it returns normally with the
  state so reached, in which the rest of the queue waits; its second pass is the body of
  the loop on that state; and any longer run is the run from that state.
\<close>

theorem drop_on_conversion_failure:
  assumes "task_queue s = task # rest"
    and "drop_corrupted_intervals (render_options self)"
    and "on_task_completed self = Some callback"
    and "generate_command fmt (input_file self) (render_options self)
           (interval_output_file task) (interval task) True
           (minimum_interval_duration (render_options self)) = Inr filtered"
    and "sp filtered (world s) = (p, w)"
    and "conversion_failed (stdout p) = Inr True"
  shows "run_iteration fmt sp self s =
           (Inr (),
            s\<lparr>world := callback task True w,
              spawned := spawned s @ [filtered],
              task_queue := rest,
              lock_held := False,
              completions := completions s @ [(task, True, False)]\<rparr>)
         \<and> run (Suc 0) fmt sp self s =
           (Inr (),
            s\<lparr>world := callback task True w,
              spawned := spawned s @ [filtered],
              task_queue := rest,
              lock_held := False,
              completions := completions s @ [(task, True, False)]\<rparr>)
         \<and> run (Suc (Suc 0)) fmt sp self s =
             run_iteration fmt sp self
               (s\<lparr>world := callback task True w,
                  spawned := spawned s @ [filtered],
                  task_queue := rest,
                  lock_held := False,
                  completions := completions s @ [(task, True, False)]\<rparr>)
         \<and> run (Suc n) fmt sp self s =
             run n fmt sp self
               (s\<lparr>world := callback task True w,
                  spawned := spawned s @ [filtered],
                  task_queue := rest,
                  lock_held := False,
                  completions := completions s @ [(task, True, False)]\<rparr>)"
proof -
  let ?s = "s\<lparr>task_queue := rest, lock_held := False\<rparr>"
  let ?s' = "s\<lparr>world := callback task True w,
              spawned := spawned s @ [filtered],
              task_queue := rest,
              lock_held := False,
              completions := completions s @ [(task, True, False)]\<rparr>"
  have pw: "sp filtered (world ?s) = (p, w)"
    using assms(5) by simp
  have r: "render_interval fmt sp self (interval_output_file task) (interval task) True
             (drop_corrupted_intervals (render_options self))
             (minimum_interval_duration (render_options self)) ?s =
           (Inr False, ?s\<lparr>world := w, spawned := spawned ?s @ [filtered]\<rparr>)"
    using assms(2,6)
    by (simp add: render_interval_filtered [where sp = sp and s = ?s, OF assms(4) pw])
  have i: "run_iteration fmt sp self s = (Inr (), ?s')"
    using assms(1,3) r by (simp add: run_iteration_def)
  have n: "run (Suc m) fmt sp self s = run m fmt sp self ?s'" for m
    using i by simp
  have one: "run (Suc 0) fmt sp self s = (Inr (), ?s')"
    using i by (simp only: run_one_pass)
  have two: "run (Suc (Suc 0)) fmt sp self s = run_iteration fmt sp self ?s'"
    using n [of "Suc 0"] by (simp only: run_one_pass)
  from i one two n [of n] show ?thesis by (intro conjI)
qed

theorem drop_on_conversion_failure_witness:
  "task_queue sample_state2 = sample_task # [sample_task2]
   \<and> drop_corrupted_intervals (render_options (sample_worker True False))
   \<and> on_task_completed (sample_worker True False) = Some sample_callback
   \<and> generate_command sample_format (input_file (sample_worker True False))
        (render_options (sample_worker True False)) (interval_output_file sample_task)
        (interval sample_task) True
        (minimum_interval_duration (render_options (sample_worker True False)))
      = Inr sample_filtered
   \<and> sample_engine conversion_output clean_output 0 sample_filtered (world sample_state2)
      = (\<lparr>stdout = conversion_output, returncode = 1\<rparr>, 1)
   \<and> conversion_failed (stdout \<lparr>stdout = conversion_output, returncode = 1\<rparr>) = Inr True
   \<and> run_iteration sample_format (sample_engine conversion_output clean_output 0)
        (sample_worker True False) sample_state2
      = (Inr (),
         \<lparr>world = 101, spawned = [sample_filtered], task_queue = [sample_task2],
          lock_held = False, completions = [(sample_task, True, False)]\<rparr>)
   \<and> run 1 sample_format (sample_engine conversion_output clean_output 0)
        (sample_worker True False) sample_state2
      = (Inr (),
         \<lparr>world = 101, spawned = [sample_filtered], task_queue = [sample_task2],
          lock_held = False, completions = [(sample_task, True, False)]\<rparr>)
   \<and> run 2 sample_format (sample_engine conversion_output clean_output 0)
        (sample_worker True False) sample_state2
      = (Inr (),
         \<lparr>world = 202, spawned = [sample_filtered, sample_filtered2], task_queue = [],
          lock_held = False,
          completions = [(sample_task, True, False), (sample_task2, True, False)]\<rparr>)
   \<and> run 3 sample_format (sample_engine conversion_output clean_output 0)
        (sample_worker True False) sample_state2
      = run 2 sample_format (sample_engine conversion_output clean_output 0)
          (sample_worker True False)
          \<lparr>world = 101, spawned = [sample_filtered], task_queue = [sample_task2],
           lock_held = False, completions = [(sample_task, True, False)]\<rparr>"
proof -
  let ?s' = "\<lparr>world = 101 :: nat, spawned = [sample_filtered], task_queue = [sample_task2],
    lock_held = False, completions = [(sample_task, True, False)]\<rparr>"
  have h1: "task_queue sample_state2 = sample_task # [sample_task2]"
    by (simp add: sample_state2_def)
  have h2: "drop_corrupted_intervals (render_options (sample_worker True False))"
    by (simp add: sample_worker_def)
  have h3: "on_task_completed (sample_worker True False) = Some sample_callback"
    by (simp add: sample_worker_def)
  have h5: "sample_engine conversion_output clean_output 0 sample_filtered
      (world sample_state2)
      = (\<lparr>stdout = conversion_output, returncode = 1\<rparr>, 1)"
    by (simp add: sample_engine_filtered sample_state2_def sample_state_def
        conversion_output_def clean_output_def)
  have h6: "conversion_failed (stdout \<lparr>stdout = conversion_output, returncode = 1\<rparr>)
      = Inr True"
    by (simp add: sample_outputs)
  have s': "sample_state2
      \<lparr>world := sample_callback sample_task True 1,
        spawned := spawned sample_state2 @ [sample_filtered],
        task_queue := [sample_task2],
        lock_held := False,
        completions := completions sample_state2 @ [(sample_task, True, False)]\<rparr> = ?s'"
    by (simp add: sample_state2_def sample_state_def sample_callback_def)
  have next_pass: "run_iteration sample_format
      (sample_engine conversion_output clean_output 0) (sample_worker True False) ?s'
      = (Inr (),
         \<lparr>world = 202, spawned = [sample_filtered, sample_filtered2], task_queue = [],
          lock_held = False,
          completions = [(sample_task, True, False), (sample_task2, True, False)]\<rparr>)"
    by code_simp
  show ?thesis
    using drop_on_conversion_failure
        [where sp = "sample_engine conversion_output clean_output 0"
           and s = sample_state2 and n = 2,
         OF h1 h2 h3 sample_filtered_command h5 h6]
      h1 h2 h3 h5 h6 next_pass
    unfolding s'
    by (simp add: sample_filtered_command numeral_3_eq_3 numeral_2_eq_2)
qed

subsection \<open>The raw retry\<close>

text \<open>
  C1 (amended). For a task taken from the queue by a worker with a callback installed,
  when the filtered attempt reports a conversion failure and
  \<open>drop_corrupted_intervals\<close> is not set: the raw command is run once after the
  filtered one. If the raw attempt reports a conversion failure too, an \<open>IOError\<close>
  naming the start and the end of the interval leaves the loop. If the raw attempt
  succeeds (neither marker in its output), the task is reported as not failed, with two
  exceptions: when the output of the filtered attempt holds the filter-error marker as
  well, the configuration error is raised after the raw attempt; and when
  \<open>check_intervals\<close> is set, the probe is run on the fragment and the task is
  reported failed exactly when the probe exits with a code other than zero.
\<close>

theorem raw_retry_after_conversion_failure:
  assumes "task_queue s = task # rest"
    and "on_task_completed self = Some callback"
    and "\<not> drop_corrupted_intervals (render_options self)"
    and "generate_command fmt (input_file self) (render_options self)
           (interval_output_file task) (interval task) True
           (minimum_interval_duration (render_options self)) = Inr filtered"
    and "generate_command fmt (input_file self) (render_options self)
           (interval_output_file task) (interval task) False
           (minimum_interval_duration (render_options self)) = Inr raw"
    and "sp filtered (world s) = (p1, w1)"
    and "conversion_failed (stdout p1) = Inr True"
    and "sp raw w1 = (p2, w2)"
    and "sp [''ffprobe'', ''-loglevel'', ''quiet'', interval_output_file task] w2
           = (probe_output, w3)"
  shows "run_iteration fmt sp self s =
           (if conversion_failed (stdout p2) = Inr True then
              (Inl (IOError (''Input file is corrupted between ''
                      @ str_float fmt (interval_start (interval task)) @ '' and ''
                      @ str_float fmt (interval_end (interval task)) @ '' (in seconds)'')),
               s\<lparr>world := w2, spawned := spawned s @ [filtered, raw],
                 task_queue := rest, lock_held := False\<rparr>)
            else if filter_error (stdout p2) \<or> filter_error (stdout p1) then
              (Inl (ValueError ''Invalid render options''),
               s\<lparr>world := w2, spawned := spawned s @ [filtered, raw],
                 task_queue := rest, lock_held := False\<rparr>)
            else if check_intervals (render_options self) then
              (Inr (),
               s\<lparr>world := callback task (returncode probe_output \<noteq> 0) w3,
                 spawned := spawned s
                   @ [filtered, raw,
                      [''ffprobe'', ''-loglevel'', ''quiet'', interval_output_file task]],
                 task_queue := rest, lock_held := False,
                 completions := completions s
                   @ [(task, returncode probe_output \<noteq> 0, False)]\<rparr>)
            else
              (Inr (),
               s\<lparr>world := callback task False w2,
                 spawned := spawned s @ [filtered, raw],
                 task_queue := rest, lock_held := False,
                 completions := completions s @ [(task, False, False)]\<rparr>))"
proof -
  let ?s = "s\<lparr>task_queue := rest, lock_held := False\<rparr>"
  have pw: "sp filtered (world ?s) = (p1, w1)"
    using assms(6) by simp
  note r = render_interval_retry
    [where sp = sp and s = ?s, OF assms(4) assms(5) pw assms(7) assms(8)]
  show ?thesis
    using assms(1,2,3,9) r
    by (simp add: run_iteration_def subprocess_run_def)
qed

theorem raw_retry_after_conversion_failure_witness:
  "task_queue sample_state = sample_task # []
   \<and> on_task_completed (sample_worker False False) = Some sample_callback
   \<and> \<not> drop_corrupted_intervals (render_options (sample_worker False False))
   \<and> generate_command sample_format (input_file (sample_worker False False))
        (render_options (sample_worker False False)) (interval_output_file sample_task)
        (interval sample_task) True
        (minimum_interval_duration (render_options (sample_worker False False)))
      = Inr sample_filtered
   \<and> generate_command sample_format (input_file (sample_worker False False))
        (render_options (sample_worker False False)) (interval_output_file sample_task)
        (interval sample_task) False
        (minimum_interval_duration (render_options (sample_worker False False)))
      = Inr sample_raw
   \<and> sample_engine conversion_output clean_output 0 sample_filtered (world sample_state)
      = (\<lparr>stdout = conversion_output, returncode = 1\<rparr>, 1)
   \<and> conversion_failed (stdout \<lparr>stdout = conversion_output, returncode = 1\<rparr>) = Inr True
   \<and> sample_engine conversion_output clean_output 0 sample_raw 1
      = (\<lparr>stdout = clean_output, returncode = 0\<rparr>, 2)
   \<and> sample_engine conversion_output clean_output 0
        [''ffprobe'', ''-loglevel'', ''quiet'', interval_output_file sample_task] 2
      = (\<lparr>stdout = [], returncode = 0\<rparr>, 3)
   \<and> run_iteration sample_format (sample_engine conversion_output clean_output 0)
        (sample_worker False False) sample_state
      = (Inr (),
         \<lparr>world = 12, spawned = [sample_filtered, sample_raw], task_queue = [],
          lock_held = False, completions = [(sample_task, False, False)]\<rparr>)
   \<and> run_iteration sample_format (sample_engine conversion_output conversion_output 0)
        (sample_worker False False) sample_state
      = (Inl (IOError ''Input file is corrupted between 0.0 and 2.0 (in seconds)''),
         \<lparr>world = 2, spawned = [sample_filtered, sample_raw], task_queue = [],
          lock_held = False, completions = []\<rparr>)"
proof -
  have h1: "task_queue sample_state = sample_task # []"
    by (simp add: sample_state_def)
  have h2: "on_task_completed (sample_worker False False) = Some sample_callback"
    by (simp add: sample_worker_def)
  have h3: "\<not> drop_corrupted_intervals (render_options (sample_worker False False))"
    "\<not> check_intervals (render_options (sample_worker False False))"
    by (simp_all add: sample_worker_def)
  have h6: "sample_engine conversion_output r 0 sample_filtered (world sample_state)
      = (\<lparr>stdout = conversion_output, returncode = 1\<rparr>, 1)" for r
    by (simp add: sample_engine_filtered sample_state_def conversion_output_def
        clean_output_def)
  have h7: "conversion_failed (stdout \<lparr>stdout = conversion_output, returncode = 1\<rparr>)
      = Inr True"
    by (simp add: sample_outputs)
  have h8: "sample_engine conversion_output clean_output 0 sample_raw 1
      = (\<lparr>stdout = clean_output, returncode = 0\<rparr>, 2)"
    by (simp add: sample_engine_raw)
  have h8': "sample_engine conversion_output conversion_output 0 sample_raw 1
      = (\<lparr>stdout = conversion_output, returncode = 1\<rparr>, 2)"
    by (simp add: sample_engine_raw conversion_output_def clean_output_def)
  have h9: "sample_engine conversion_output r 0
        [''ffprobe'', ''-loglevel'', ''quiet'', interval_output_file sample_task] 2
      = (\<lparr>stdout = [], returncode = 0\<rparr>, 3)" for r
    by (simp add: sample_engine_def)
  have fmt: "str_float sample_format (interval_start (interval sample_task)) = ''0.0''"
    "str_float sample_format (interval_end (interval sample_task)) = ''2.0''"
    by (simp_all add: sample_format_def sample_task_def sample_interval_def)
  show ?thesis
    using raw_retry_after_conversion_failure
        [where sp = "sample_engine conversion_output clean_output 0" and s = sample_state,
         OF h1 h2 h3(1) sample_filtered_command sample_raw_command h6 h7 h8 h9]
      raw_retry_after_conversion_failure
        [where sp = "sample_engine conversion_output conversion_output 0"
           and s = sample_state,
         OF h1 h2 h3(1) sample_filtered_command sample_raw_command h6 h7 h8' h9]
      h1 h2 h3 h6 h7 h8 h9
    by (simp add: sample_filtered_command sample_raw_command sample_outputs fmt
        sample_state_def sample_callback_def)
qed

text \<open>
  C1 as stated fails in two places. Where the output of the filtered attempt holds both
  markers, the raw attempt runs and succeeds, and the configuration error still leaves
  the loop without a report. Where \<open>check_intervals\<close> is set and the probe exits with
  code 1, the raw attempt runs and succeeds, and the task is reported failed.
\<close>

theorem raw_success_counterexample:
  "conversion_failed both_output = Inr True
   \<and> conversion_failed conversion_output = Inr True
   \<and> conversion_failed clean_output = Inr False
   \<and> \<not> filter_error clean_output
   \<and> run_iteration sample_format (sample_engine both_output clean_output 0)
        (sample_worker False False) sample_state
      = (Inl (ValueError ''Invalid render options''),
         \<lparr>world = 2, spawned = [sample_filtered, sample_raw], task_queue = [],
          lock_held = False, completions = []\<rparr>)
   \<and> run_iteration sample_format (sample_engine conversion_output clean_output 1)
        (sample_worker False True) sample_state
      = (Inr (),
         \<lparr>world = 103, spawned = [sample_filtered, sample_raw, sample_probe],
          task_queue = [], lock_held = False,
          completions = [(sample_task, True, False)]\<rparr>)"
  by code_simp

subsection \<open>Filter configuration errors\<close>

text \<open>
  C2 (amended). For the call that the worker makes for a task (filtered first):
  an attempt, filtered or raw, whose output holds the filter-error marker and does not
  match the conversion-failure marker raises the configuration error, whatever
  \<open>drop_corrupted_intervals\<close> is. When the output of the filtered attempt matches both
  markers and \<open>drop_corrupted_intervals\<close> is not set, the raw retry runs first and an
  error is raised in every case: the configuration error, unless the raw attempt reports
  a conversion failure, which raises the \<open>IOError\<close> of the corrupted interval.
\<close>

theorem filter_error_is_fatal:
  assumes "generate_command fmt (input_file self) (render_options self) output_file iv
             True min_dur = Inr filtered"
    and "generate_command fmt (input_file self) (render_options self) output_file iv
             False min_dur = Inr raw"
    and "sp filtered (world s) = (p1, w1)"
    and "sp raw w1 = (p2, w2)"
  shows "(filter_error (stdout p1) \<and> conversion_failed (stdout p1) = Inr False \<longrightarrow>
            render_interval fmt sp self output_file iv True drop_corrupted min_dur s =
              (Inl (ValueError ''Invalid render options''),
               s\<lparr>world := w1, spawned := spawned s @ [filtered]\<rparr>))
         \<and> (filter_error (stdout p2) \<and> conversion_failed (stdout p2) = Inr False
              \<and> conversion_failed (stdout p1) = Inr True \<and> \<not> drop_corrupted \<longrightarrow>
            render_interval fmt sp self output_file iv True drop_corrupted min_dur s =
              (Inl (ValueError ''Invalid render options''),
               s\<lparr>world := w2, spawned := spawned s @ [filtered, raw]\<rparr>))
         \<and> (filter_error (stdout p1) \<and> conversion_failed (stdout p1) = Inr True
              \<and> \<not> drop_corrupted \<longrightarrow>
            render_interval fmt sp self output_file iv True drop_corrupted min_dur s =
              (Inl (if conversion_failed (stdout p2) = Inr True
                    then IOError (''Input file is corrupted between ''
                           @ str_float fmt (interval_start iv) @ '' and ''
                           @ str_float fmt (interval_end iv) @ '' (in seconds)'')
                    else ValueError ''Invalid render options''),
               s\<lparr>world := w2, spawned := spawned s @ [filtered, raw]\<rparr>))"
proof -
  let ?s1 = "s\<lparr>world := w1, spawned := spawned s @ [filtered]\<rparr>"
  have pw2: "sp raw (world ?s1) = (p2, w2)"
    using assms(4) by simp
  show ?thesis
    unfolding render_interval_filtered [where sp = sp and s = s, OF assms(1) assms(3)]
      render_interval_raw [where sp = sp and s = ?s1, OF assms(2) pw2]
    by (simp add: check_filter_error_def)
qed

theorem filter_error_is_fatal_witness:
  "sample_engine filter_output filter_output 0 sample_filtered (world sample_state)
      = (\<lparr>stdout = filter_output, returncode = 1\<rparr>, 1)
   \<and> sample_engine filter_output filter_output 0 sample_raw 1
      = (\<lparr>stdout = filter_output, returncode = 1\<rparr>, 2)
   \<and> filter_error (stdout \<lparr>stdout = filter_output, returncode = 1\<rparr>)
   \<and> conversion_failed (stdout \<lparr>stdout = filter_output, returncode = 1\<rparr>) = Inr False
   \<and> render_interval sample_format (sample_engine filter_output filter_output 0)
        (sample_worker True False) (interval_output_file sample_task)
        (interval sample_task) True True
        (minimum_interval_duration (render_options (sample_worker True False)))
        sample_state
      = (Inl (ValueError ''Invalid render options''),
         \<lparr>world = 1, spawned = [sample_filtered], task_queue = [sample_task],
          lock_held = False, completions = []\<rparr>)
   \<and> sample_engine conversion_output filter_output 0 sample_filtered (world sample_state)
      = (\<lparr>stdout = conversion_output, returncode = 1\<rparr>, 1)
   \<and> sample_engine conversion_output filter_output 0 sample_raw 1
      = (\<lparr>stdout = filter_output, returncode = 1\<rparr>, 2)
   \<and> conversion_failed (stdout \<lparr>stdout = conversion_output, returncode = 1\<rparr>) = Inr True
   \<and> render_interval sample_format (sample_engine conversion_output filter_output 0)
        (sample_worker False False) (interval_output_file sample_task)
        (interval sample_task) True False
        (minimum_interval_duration (render_options (sample_worker False False)))
        sample_state
      = (Inl (ValueError ''Invalid render options''),
         \<lparr>world = 2, spawned = [sample_filtered, sample_raw], task_queue = [sample_task],
          lock_held = False, completions = []\<rparr>)
   \<and> sample_engine both_output clean_output 0 sample_filtered (world sample_state)
      = (\<lparr>stdout = both_output, returncode = 1\<rparr>, 1)
   \<and> sample_engine both_output clean_output 0 sample_raw 1
      = (\<lparr>stdout = clean_output, returncode = 0\<rparr>, 2)
   \<and> filter_error (stdout \<lparr>stdout = both_output, returncode = 1\<rparr>)
   \<and> conversion_failed (stdout \<lparr>stdout = both_output, returncode = 1\<rparr>) = Inr True
   \<and> render_interval sample_format (sample_engine both_output clean_output 0)
        (sample_worker False False) (interval_output_file sample_task)
        (interval sample_task) True False
        (minimum_interval_duration (render_options (sample_worker False False)))
        sample_state
      = (Inl (ValueError ''Invalid render options''),
         \<lparr>world = 2, spawned = [sample_filtered, sample_raw], task_queue = [sample_task],
          lock_held = False, completions = []\<rparr>)"
proof -
  have e1: "sample_engine filter_output filter_output 0 sample_filtered (world sample_state)
      = (\<lparr>stdout = filter_output, returncode = 1\<rparr>, 1)"
    "sample_engine filter_output filter_output 0 sample_raw 1
      = (\<lparr>stdout = filter_output, returncode = 1\<rparr>, 2)"
    by (simp_all add: sample_engine_filtered sample_engine_raw sample_state_def
        filter_output_def clean_output_def)
  have e2: "sample_engine conversion_output filter_output 0 sample_filtered
        (world sample_state)
      = (\<lparr>stdout = conversion_output, returncode = 1\<rparr>, 1)"
    "sample_engine conversion_output filter_output 0 sample_raw 1
      = (\<lparr>stdout = filter_output, returncode = 1\<rparr>, 2)"
    by (simp_all add: sample_engine_filtered sample_engine_raw sample_state_def
        filter_output_def conversion_output_def clean_output_def)
  have e3: "sample_engine both_output clean_output 0 sample_filtered (world sample_state)
      = (\<lparr>stdout = both_output, returncode = 1\<rparr>, 1)"
    "sample_engine both_output clean_output 0 sample_raw 1
      = (\<lparr>stdout = clean_output, returncode = 0\<rparr>, 2)"
    by (simp_all add: sample_engine_filtered sample_engine_raw sample_state_def
        both_output_def clean_output_def)
  show ?thesis
    using filter_error_is_fatal
        [where sp = "sample_engine filter_output filter_output 0" and s = sample_state
           and drop_corrupted = True,
         OF sample_filtered_command sample_raw_command e1]
      filter_error_is_fatal
        [where sp = "sample_engine conversion_output filter_output 0" and s = sample_state
           and drop_corrupted = False,
         OF sample_filtered_command sample_raw_command e2]
      filter_error_is_fatal
        [where sp = "sample_engine both_output clean_output 0" and s = sample_state
           and drop_corrupted = False,
         OF sample_filtered_command sample_raw_command e3]
      e1 e2 e3
    by (simp add: sample_outputs sample_state_def)
qed

text \<open>
  C2 as stated fails where the output of the filtered attempt matches both markers and
  \<open>drop_corrupted_intervals\<close> is set: the task is dropped (the call returns \<open>False\<close>)
  and no error is raised.
\<close>

theorem filter_error_dropped_counterexample:
  "filter_error both_output
   \<and> render_interval sample_format (sample_engine both_output clean_output 0)
        (sample_worker True False) ''out_0.mp4'' sample_interval True True (1 / 4)
        sample_state
      = (Inr False,
         \<lparr>world = 1, spawned = [sample_filtered], task_queue = [sample_task],
          lock_held = False, completions = []\<rparr>)"
  by code_simp

subsection \<open>The completion callback\<close>

text \<open>
  C3 (amended). For a task taken from the queue by a worker with a callback installed:
  if rendering the task raises nothing, the pass through the loop ends normally and the
  callback has been applied exactly once, to the task and the failed flag (the negation of
  what rendering returned, or of the verdict of the probe when one is run), after
  rendering and probing and while the worker did not hold the lock; if rendering raises,
  the exception leaves the loop and the callback has not been called. Rendering itself
  never calls the callback.
\<close>

theorem callback_once_unless_fatal:
  assumes "task_queue s = task # rest"
    and "on_task_completed self = Some callback"
    and "render_interval fmt sp self (interval_output_file task) (interval task) True
           (drop_corrupted_intervals (render_options self))
           (minimum_interval_duration (render_options self))
           (s\<lparr>task_queue := rest, lock_held := False\<rparr>) = (r, s1)"
    and "sp [''ffprobe'', ''-loglevel'', ''quiet'', interval_output_file task] (world s1)
           = (probe_output, w)"
  shows "run_iteration fmt sp self s =
           (case r of
              Inr completed \<Rightarrow>
                if completed \<and> check_intervals (render_options self) then
                  (Inr (),
                   s1\<lparr>world := callback task (returncode probe_output \<noteq> 0) w,
                      spawned := spawned s1
                        @ [[''ffprobe'', ''-loglevel'', ''quiet'', interval_output_file task]],
                      completions := completions s
                        @ [(task, returncode probe_output \<noteq> 0, False)]\<rparr>)
                else
                  (Inr (),
                   s1\<lparr>world := callback task (\<not> completed) (world s1),
                      completions := completions s @ [(task, \<not> completed, False)]\<rparr>)
            | Inl e \<Rightarrow> (Inl e, s1))
         \<and> completions s1 = completions s
         \<and> task_queue s1 = rest
         \<and> lock_held s1 = False"
proof -
  from render_interval_frame [OF assms(3)]
  have frame: "task_queue s1 = rest" "lock_held s1 = False" "completions s1 = completions s"
    by simp_all
  have "run_iteration fmt sp self s =
           (case r of
              Inr completed \<Rightarrow>
                if completed \<and> check_intervals (render_options self) then
                  (Inr (),
                   s1\<lparr>world := callback task (returncode probe_output \<noteq> 0) w,
                      spawned := spawned s1
                        @ [[''ffprobe'', ''-loglevel'', ''quiet'', interval_output_file task]],
                      completions := completions s
                        @ [(task, returncode probe_output \<noteq> 0, False)]\<rparr>)
                else
                  (Inr (),
                   s1\<lparr>world := callback task (\<not> completed) (world s1),
                      completions := completions s @ [(task, \<not> completed, False)]\<rparr>)
            | Inl e \<Rightarrow> (Inl e, s1))"
    using assms frame
    by (cases r) (simp_all add: run_iteration_def subprocess_run_def)
  with frame show ?thesis by simp
qed

theorem callback_once_unless_fatal_witness:
  "task_queue sample_state = sample_task # []
   \<and> on_task_completed (sample_worker False False) = Some sample_callback
   \<and> render_interval sample_format (sample_engine clean_output clean_output 0)
        (sample_worker False False) (interval_output_file sample_task)
        (interval sample_task) True
        (drop_corrupted_intervals (render_options (sample_worker False False)))
        (minimum_interval_duration (render_options (sample_worker False False)))
        (sample_state\<lparr>task_queue := [], lock_held := False\<rparr>)
      = (Inr True,
         \<lparr>world = 1, spawned = [sample_filtered], task_queue = [], lock_held = False,
          completions = []\<rparr>)
   \<and> sample_engine clean_output clean_output 0
        [''ffprobe'', ''-loglevel'', ''quiet'', interval_output_file sample_task] 1
      = (\<lparr>stdout = [], returncode = 0\<rparr>, 2)
   \<and> run_iteration sample_format (sample_engine clean_output clean_output 0)
        (sample_worker False False) sample_state
      = (Inr (),
         \<lparr>world = 11, spawned = [sample_filtered], task_queue = [], lock_held = False,
          completions = [(sample_task, False, False)]\<rparr>)"
proof -
  let ?s1 = "\<lparr>world = 1 :: nat, spawned = [sample_filtered], task_queue = [],
    lock_held = False, completions = []\<rparr>"
  have h1: "task_queue sample_state = sample_task # []"
    by (simp add: sample_state_def)
  have h2: "on_task_completed (sample_worker False False) = Some sample_callback"
    by (simp add: sample_worker_def)
  have h3: "render_interval sample_format (sample_engine clean_output clean_output 0)
        (sample_worker False False) (interval_output_file sample_task)
        (interval sample_task) True
        (drop_corrupted_intervals (render_options (sample_worker False False)))
        (minimum_interval_duration (render_options (sample_worker False False)))
        (sample_state\<lparr>task_queue := [], lock_held := False\<rparr>)
      = (Inr True, ?s1)"
    by code_simp
  have h4: "sample_engine clean_output clean_output 0
        [''ffprobe'', ''-loglevel'', ''quiet'', interval_output_file sample_task]
        (world ?s1)
      = (\<lparr>stdout = [], returncode = 0\<rparr>, 2)"
    by (simp add: sample_engine_def)
  have c: "\<not> check_intervals (render_options (sample_worker False False))"
    by (simp add: sample_worker_def)
  show ?thesis
    using callback_once_unless_fatal
        [where sp = "sample_engine clean_output clean_output 0" and s = sample_state,
         OF h1 h2 h3 h4] h1 h2 h3 h4 c
    by (simp add: sample_state_def sample_callback_def)
qed

text \<open>
  C3 as stated fails on a fatal failure: with both attempts reporting a conversion
  failure and \<open>drop_corrupted_intervals\<close> not set, the task has left the queue, the
  \<open>IOError\<close> leaves the loop, and the installed callback has not been called.
\<close>

theorem callback_skipped_counterexample:
  "on_task_completed (sample_worker False False) = Some sample_callback
   \<and> run_iteration sample_format (sample_engine conversion_output conversion_output 0)
        (sample_worker False False) sample_state
      = (Inl (IOError ''Input file is corrupted between 0.0 and 2.0 (in seconds)''),
         \<lparr>world = 2, spawned = [sample_filtered, sample_raw], task_queue = [],
          lock_held = False, completions = []\<rparr>)"
proof (intro conjI)
  show "on_task_completed (sample_worker False False) = Some sample_callback"
    by (simp add: sample_worker_def)
  show "run_iteration sample_format (sample_engine conversion_output conversion_output 0)
        (sample_worker False False) sample_state
      = (Inl (IOError ''Input file is corrupted between 0.0 and 2.0 (in seconds)''),
         \<lparr>world = 2, spawned = [sample_filtered, sample_raw], task_queue = [],
          lock_held = False, completions = []\<rparr>)"
    by code_simp
qed

subsection \<open>The structural probe\<close>

text \<open>
  C6. With \<open>check_intervals\<close> set and a callback installed, for a task taken from the
  queue: if rendering returned success, \<open>ffprobe\<close> is run once on the fragment, nothing
  is run after it, and the callback gets the failed flag set exactly when the exit code of
  the probe is not zero; if rendering returned failure (the task was dropped) or raised,
  no probe is run.
\<close>

theorem probe_decides_outcome:
  assumes "task_queue s = task # rest"
    and "on_task_completed self = Some callback"
    and "check_intervals (render_options self)"
    and "render_interval fmt sp self (interval_output_file task) (interval task) True
           (drop_corrupted_intervals (render_options self))
           (minimum_interval_duration (render_options self))
           (s\<lparr>task_queue := rest, lock_held := False\<rparr>) = (r, s1)"
    and "sp [''ffprobe'', ''-loglevel'', ''quiet'', interval_output_file task] (world s1)
           = (probe_output, w)"
  shows "run_iteration fmt sp self s =
           (case r of
              Inr completed \<Rightarrow>
                if completed then
                  (Inr (),
                   s1\<lparr>world := callback task (returncode probe_output \<noteq> 0) w,
                      spawned := spawned s1
                        @ [[''ffprobe'', ''-loglevel'', ''quiet'', interval_output_file task]],
                      completions := completions s
                        @ [(task, returncode probe_output \<noteq> 0, False)]\<rparr>)
                else
                  (Inr (),
                   s1\<lparr>world := callback task True (world s1),
                      completions := completions s @ [(task, True, False)]\<rparr>)
            | Inl e \<Rightarrow> (Inl e, s1))"
proof -
  from render_interval_frame [OF assms(4)]
  have frame: "task_queue s1 = rest" "lock_held s1 = False" "completions s1 = completions s"
    by simp_all
  show ?thesis
    using assms frame
    by (cases r) (simp_all add: run_iteration_def subprocess_run_def)
qed

theorem probe_decides_outcome_witness:
  "task_queue sample_state = sample_task # []
   \<and> on_task_completed (sample_worker False True) = Some sample_callback
   \<and> check_intervals (render_options (sample_worker False True))
   \<and> render_interval sample_format (sample_engine clean_output clean_output 1)
        (sample_worker False True) (interval_output_file sample_task)
        (interval sample_task) True
        (drop_corrupted_intervals (render_options (sample_worker False True)))
        (minimum_interval_duration (render_options (sample_worker False True)))
        (sample_state\<lparr>task_queue := [], lock_held := False\<rparr>)
      = (Inr True,
         \<lparr>world = 1, spawned = [sample_filtered], task_queue = [], lock_held = False,
          completions = []\<rparr>)
   \<and> sample_engine clean_output clean_output 1
        [''ffprobe'', ''-loglevel'', ''quiet'', interval_output_file sample_task] 1
      = (\<lparr>stdout = [], returncode = 1\<rparr>, 2)
   \<and> run_iteration sample_format (sample_engine clean_output clean_output 1)
        (sample_worker False True) sample_state
      = (Inr (),
         \<lparr>world = 102, spawned = [sample_filtered, sample_probe], task_queue = [],
          lock_held = False, completions = [(sample_task, True, False)]\<rparr>)"
proof -
  let ?s1 = "\<lparr>world = 1 :: nat, spawned = [sample_filtered], task_queue = [],
    lock_held = False, completions = []\<rparr>"
  have h1: "task_queue sample_state = sample_task # []"
    by (simp add: sample_state_def)
  have h2: "on_task_completed (sample_worker False True) = Some sample_callback"
    by (simp add: sample_worker_def)
  have h3: "check_intervals (render_options (sample_worker False True))"
    by (simp add: sample_worker_def)
  have h4: "render_interval sample_format (sample_engine clean_output clean_output 1)
        (sample_worker False True) (interval_output_file sample_task)
        (interval sample_task) True
        (drop_corrupted_intervals (render_options (sample_worker False True)))
        (minimum_interval_duration (render_options (sample_worker False True)))
        (sample_state\<lparr>task_queue := [], lock_held := False\<rparr>)
      = (Inr True, ?s1)"
    by code_simp
  have h5: "sample_engine clean_output clean_output 1
        [''ffprobe'', ''-loglevel'', ''quiet'', interval_output_file sample_task]
        (world ?s1)
      = (\<lparr>stdout = [], returncode = 1\<rparr>, 2)"
    by (simp add: sample_engine_def)
  show ?thesis
    using probe_decides_outcome
        [where sp = "sample_engine clean_output clean_output 1" and s = sample_state,
         OF h1 h2 h3 h4 h5] h1 h2 h3 h4 h5
    by (simp add: sample_state_def sample_callback_def sample_probe_def sample_task_def)
qed

subsection \<open>The generated command\<close>

text \<open>
  C7. Whenever the builder produces a command on the filtered path, the speed is the
  clamped \<open>silent_speed\<close> or \<open>audible_speed\<close> and the volume \<open>silent_volume\<close> or
  \<open>audible_volume\<close>, chosen by \<open>is_silent\<close>; and the argument of
  \<open>-filter_complex\<close> is the graph of the specification for this speed and volume: the
  video stage scaling the timestamps by the inverse of the clamped speed exactly when
  \<open>audio_only\<close> is false, and an audio stage whose chain holds the optional fade-in
  (from time 0) and fade-out (starting at \<open>duration - fade_out_duration\<close>) before the
  tempo stage.
\<close>

theorem filter_graph_follows_spec:
  assumes "generate_command fmt input opts output_file iv True min_dur = Inr command"
  shows "\<exists>speed.
           clamp_speed (duration iv)
             (if is_silent iv then silent_speed opts else audible_speed opts) min_dur
           = Inr speed
           \<and> command =
               [''ffmpeg'',
                ''-ss'', str_float fmt (interval_start iv),
                ''-to'', str_float fmt (interval_end iv),
                ''-i'', input,
                ''-vsync'', ''1'', ''-async'', ''1'', ''-safe'', ''0'',
                ''-ignore_unknown'', ''-y'']
               @ [''-filter_complex'',
                  spec_filter_graph fmt opts iv speed
                    (if is_silent iv then silent_volume opts else audible_volume opts)]
               @ (if audio_only opts then [] else [''-map'', ''[v]''])
               @ [''-map'', ''[a]'', output_file]"
proof -
  from assms obtain speed where
    c: "clamp_speed (duration iv)
          (if is_silent iv then silent_speed opts else audible_speed opts) min_dur
        = Inr speed"
    and z: "audio_only opts \<or> speed \<noteq> 0"
    by (rule generate_command_filtered_error)
  from generate_command_filtered [OF c z, of fmt input output_file] assms c
  show ?thesis by simp
qed

theorem filter_graph_follows_spec_witness:
  "generate_command sample_format ''in.mp4'' sample_options ''out_0.mp4'' sample_interval
     True (1 / 4) = Inr sample_filtered
   \<and> clamp_speed (duration sample_interval) (silent_speed sample_options) (1 / 4) = Inr 8
   \<and> sample_filtered =
       [''ffmpeg'', ''-ss'', ''0.0'', ''-to'', ''2.0'', ''-i'', ''in.mp4'',
        ''-vsync'', ''1'', ''-async'', ''1'', ''-safe'', ''0'', ''-ignore_unknown'', ''-y'']
       @ [''-filter_complex'',
          spec_filter_graph sample_format sample_options sample_interval 8
            (silent_volume sample_options)]
       @ [''-map'', ''[v]'', ''-map'', ''[a]'', ''out_0.mp4'']
   \<and> spec_filter_graph sample_format sample_options sample_interval 8
         (silent_volume sample_options)
       = ''[0:v]setpts=0.125*PTS[v];[0:a]afade=t=out:st=1.5000:d=0.5000:curve=tri,atempo=8.0,volume=0.5[a]''"
proof -
  have h: "generate_command sample_format ''in.mp4'' sample_options ''out_0.mp4''
      sample_interval True (1 / 4) = Inr sample_filtered"
    by (simp add: generate_command_def get_fade_filter_def clamp_speed_def py_truediv_def
        duration_def sample_format_def sample_options_def sample_filtered_def
        sample_interval_def)
  have c: "clamp_speed (duration sample_interval) (silent_speed sample_options) (1 / 4)
      = Inr 8"
    by (simp add: clamp_speed_def py_truediv_def duration_def sample_interval_def
        sample_options_def)
  have s: "is_silent sample_interval" "\<not> audio_only sample_options"
    "str_float sample_format (interval_start sample_interval) = ''0.0''"
    "str_float sample_format (interval_end sample_interval) = ''2.0''"
    by (simp_all add: sample_interval_def sample_options_def sample_format_def)
  have g: "spec_filter_graph sample_format sample_options sample_interval 8
         (silent_volume sample_options)
       = ''[0:v]setpts=0.125*PTS[v];[0:a]afade=t=out:st=1.5000:d=0.5000:curve=tri,atempo=8.0,volume=0.5[a]''"
    by (simp add: spec_filter_graph_def spec_audio_chain_def spec_video_stage_def
        spec_fade_out_def sample_format_def sample_options_def sample_interval_def
        duration_def)
  from filter_graph_follows_spec [OF h] c s h g
  show ?thesis by auto
qed

text \<open>
  C8. Whenever the builder produces a command, on either path, the command starts with
  the program name and the trim arguments \<open>-ss start -to end\<close>, before the input; the
  filter arguments (\<open>-filter_complex\<close> with its graph and maps on the filtered path,
  \<open>-af\<close> with the fade on the raw path) come after them. The raw path always produces
  a command, and the filtered path does whenever the duration, the speed chosen for the
  interval and the minimum duration are positive.
\<close>

theorem trim_precedes_filters:
  "(generate_command fmt input opts output_file iv apply_filter min_dur = Inr command \<longrightarrow>
      command =
        [''ffmpeg'',
         ''-ss'', str_float fmt (interval_start iv),
         ''-to'', str_float fmt (interval_end iv)]
        @ [''-i'', input,
           ''-vsync'', ''1'', ''-async'', ''1'', ''-safe'', ''0'', ''-ignore_unknown'', ''-y'']
        @ (if apply_filter then
             [''-filter_complex'', command ! 16]
             @ (if audio_only opts then [] else [''-map'', ''[v]''])
             @ [''-map'', ''[a]'', output_file]
           else
             (if get_fade_filter fmt (duration iv) (interval_in_fade_duration opts)
                   (interval_out_fade_duration opts) (fade_curve opts) \<noteq> []
              then [''-af'',
                    get_fade_filter fmt (duration iv) (interval_in_fade_duration opts)
                      (interval_out_fade_duration opts) (fade_curve opts)]
              else [])
             @ (if audio_only opts then [''-vn''] else [])
             @ [output_file]))
   \<and> ((apply_filter \<longrightarrow>
          0 < duration iv
          \<and> 0 < (if is_silent iv then silent_speed opts else audible_speed opts)
          \<and> 0 < min_dur) \<longrightarrow>
        (\<exists>c. generate_command fmt input opts output_file iv apply_filter min_dur = Inr c))"
proof (intro conjI impI)
  assume g: "generate_command fmt input opts output_file iv apply_filter min_dur
    = Inr command"
  show "command =
        [''ffmpeg'',
         ''-ss'', str_float fmt (interval_start iv),
         ''-to'', str_float fmt (interval_end iv)]
        @ [''-i'', input,
           ''-vsync'', ''1'', ''-async'', ''1'', ''-safe'', ''0'', ''-ignore_unknown'', ''-y'']
        @ (if apply_filter then
             [''-filter_complex'', command ! 16]
             @ (if audio_only opts then [] else [''-map'', ''[v]''])
             @ [''-map'', ''[a]'', output_file]
           else
             (if get_fade_filter fmt (duration iv) (interval_in_fade_duration opts)
                   (interval_out_fade_duration opts) (fade_curve opts) \<noteq> []
              then [''-af'',
                    get_fade_filter fmt (duration iv) (interval_in_fade_duration opts)
                      (interval_out_fade_duration opts) (fade_curve opts)]
              else [])
             @ (if audio_only opts then [''-vn''] else [])
             @ [output_file])"
  proof (cases apply_filter)
    case True
    with g obtain speed where
      c: "clamp_speed (duration iv)
            (if is_silent iv then silent_speed opts else audible_speed opts) min_dur
          = Inr speed"
      and z: "audio_only opts \<or> speed \<noteq> 0"
      by (auto elim: generate_command_filtered_error)
    from generate_command_filtered [OF c z, of fmt input output_file] g True
    show ?thesis by auto
  next
    case False
    with g show ?thesis
      by (auto simp add: generate_command_unfiltered Let_def)
  qed
next
  assume p: "apply_filter \<longrightarrow>
    0 < duration iv
    \<and> 0 < (if is_silent iv then silent_speed opts else audible_speed opts)
    \<and> 0 < min_dur"
  show "\<exists>c. generate_command fmt input opts output_file iv apply_filter min_dur = Inr c"
  proof (cases apply_filter)
    case True
    with p clamp_speed_positive
    obtain speed where
      c: "clamp_speed (duration iv)
            (if is_silent iv then silent_speed opts else audible_speed opts) min_dur
          = Inr speed"
      and z: "0 < speed"
      by blast
    from z have "audio_only opts \<or> speed \<noteq> 0" by simp
    from generate_command_filtered [OF c this, of fmt input output_file] True
    show ?thesis by simp
  next
    case False
    then show ?thesis by (simp add: generate_command_unfiltered)
  qed
qed

theorem trim_precedes_filters_witness:
  "generate_command sample_format ''in.mp4'' sample_options ''out_0.mp4'' sample_interval
     False (1 / 4) = Inr sample_raw
   \<and> sample_raw =
       [''ffmpeg'', ''-ss'', ''0.0'', ''-to'', ''2.0'']
       @ [''-i'', ''in.mp4'',
          ''-vsync'', ''1'', ''-async'', ''1'', ''-safe'', ''0'', ''-ignore_unknown'', ''-y'']
       @ [''-af'', ''afade=t=out:st=1.5000:d=0.5000:curve=tri'']
       @ [''out_0.mp4'']
   \<and> 0 < duration sample_interval
   \<and> 0 < silent_speed sample_options
   \<and> (\<exists>c. generate_command sample_format ''in.mp4'' sample_options ''out_0.mp4''
              sample_interval True (1 / 4) = Inr c)"
proof -
  have h: "generate_command sample_format ''in.mp4'' sample_options ''out_0.mp4''
      sample_interval False (1 / 4) = Inr sample_raw"
    by (simp add: generate_command_def get_fade_filter_def duration_def sample_format_def
        sample_options_def sample_raw_def sample_interval_def)
  have f: "get_fade_filter sample_format (duration sample_interval)
      (interval_in_fade_duration sample_options) (interval_out_fade_duration sample_options)
      (fade_curve sample_options) = ''afade=t=out:st=1.5000:d=0.5000:curve=tri''"
    by (simp add: get_fade_filter_def duration_def sample_format_def sample_options_def
        sample_interval_def)
  have p: "0 < duration sample_interval" "0 < silent_speed sample_options"
    "is_silent sample_interval" "\<not> audio_only sample_options"
    "str_float sample_format (interval_start sample_interval) = ''0.0''"
    "str_float sample_format (interval_end sample_interval) = ''2.0''"
    by (simp_all add: duration_def sample_interval_def sample_options_def sample_format_def)
  from trim_precedes_filters [of sample_format "''in.mp4''" sample_options "''out_0.mp4''"
      sample_interval False "1 / 4" sample_raw]
    trim_precedes_filters [of sample_format "''in.mp4''" sample_options "''out_0.mp4''"
      sample_interval True "1 / 4"]
    h f p
  show ?thesis by simp
qed

subsection \<open>The session facade\<close>

text \<open>
  C9. While no interval collection is set (the state \<open>__init__\<close> leaves, before
  \<open>detect_silence\<close> has returned a collection or \<open>set_intervals\<close> was called),
  \<open>estimate_time\<close> and \<open>render_media\<close> raise the \<open>ValueError\<close> at once: the
  collaborators are not consulted and the world is unchanged. Once a collection is set,
  neither raises it: each returns what its collaborator does.
\<close>

theorem missing_intervals_precondition:
  "(session_intervals self = None \<longrightarrow>
      estimate_time calculate_time self audible silent w =
        (Inl (ValueError
           ''Silence detection was not yet run and no intervals where given manually!''), w)
      \<and> render_media render self output_file kwargs w =
        (Inl (ValueError
           ''Silence detection was not yet run and no intervals where given manually!''), w))
   \<and> (session_intervals self = Some ivs \<longrightarrow>
      estimate_time calculate_time self audible silent w =
        (Inr (fst (calculate_time ivs audible silent w)),
         snd (calculate_time ivs audible silent w))
      \<and> render_media render self output_file kwargs w =
        (Inr (map_sum id (\<lambda>_. ()) (fst (render (session_temp_dir self)
                 (session_input_file self) output_file ivs kwargs w))),
         snd (render (session_temp_dir self) (session_input_file self) output_file ivs
                kwargs w)))
   \<and> session_intervals (set_intervals self ivs) = Some ivs
   \<and> (fst (detect (session_input_file self) kwargs' w) = Inr ivs \<longrightarrow>
        session_intervals (fst (snd (detect_silence detect self kwargs' w))) = Some ivs)
   \<and> (unsilence_init status input temp env = (Inr fresh, env') \<longrightarrow>
        session_intervals fresh = None)"
  by (auto simp add: estimate_time_def render_media_def set_intervals_def
      detect_silence_def unsilence_init_def Let_def
      split: prod.splits sum.splits if_splits)

theorem missing_intervals_precondition_witness:
  "unsilence_init ''usable'' ''in.mp4'' ''.tmp'' \<lparr>stderr = [], atexit = []\<rparr>
     = (Inr sample_session, \<lparr>stderr = [], atexit = [''.tmp'']\<rparr>)
   \<and> session_intervals sample_session = None
   \<and> estimate_time sample_calculate_time sample_session 1 6 0
     = (Inl (ValueError
          ''Silence detection was not yet run and no intervals where given manually!''), 0)
   \<and> render_media sample_render sample_session ''out.mp4'' () 0
     = (Inl (ValueError
          ''Silence detection was not yet run and no intervals where given manually!''), 0)
   \<and> session_intervals (set_intervals sample_session [sample_interval])
     = Some [sample_interval]
   \<and> estimate_time sample_calculate_time (set_intervals sample_session [sample_interval])
       1 6 0
     = (Inr (Inr 2), 1)
   \<and> render_media sample_render (set_intervals sample_session [sample_interval])
       ''out.mp4'' () 0
     = (Inr (Inr ()), 1)"
proof -
  have i: "unsilence_init ''usable'' ''in.mp4'' ''.tmp'' \<lparr>stderr = [], atexit = []\<rparr>
     = (Inr sample_session, \<lparr>stderr = [], atexit = [''.tmp'']\<rparr>)"
    by (simp add: unsilence_init_def sample_session_def)
  have n: "session_intervals sample_session = None"
    by (simp add: sample_session_def)
  have c: "sample_calculate_time [sample_interval] 1 6 0 = (Inr 2, 1)"
    by (simp add: sample_calculate_time_def duration_def sample_interval_def)
  have r: "sample_render (session_temp_dir (set_intervals sample_session [sample_interval]))
      (session_input_file (set_intervals sample_session [sample_interval]))
      ''out.mp4'' [sample_interval] () 0 = (Inr (), 1)"
    by (simp add: sample_render_def)
  have s: "session_intervals (set_intervals sample_session [sample_interval])
      = Some [sample_interval]"
    by (simp add: set_intervals_def)
  from missing_intervals_precondition
      [where self = sample_session and calculate_time = sample_calculate_time
         and audible = 1 and silent = 6 and w = "0 :: nat" and render = sample_render
         and output_file = "''out.mp4''" and kwargs = "()", THEN conjunct1] n
  have a: "estimate_time sample_calculate_time sample_session 1 6 0
     = (Inl (ValueError
          ''Silence detection was not yet run and no intervals where given manually!''), 0)
   \<and> render_media sample_render sample_session ''out.mp4'' () 0
     = (Inl (ValueError
          ''Silence detection was not yet run and no intervals where given manually!''), 0)"
    by simp
  from missing_intervals_precondition
      [where self = "set_intervals sample_session [sample_interval]"
         and ivs = "[sample_interval]" and calculate_time = sample_calculate_time
         and audible = 1 and silent = 6 and w = "0 :: nat" and render = sample_render
         and output_file = "''out.mp4''" and kwargs = "()",
       THEN conjunct2, THEN conjunct1] s c r
  have b: "estimate_time sample_calculate_time
       (set_intervals sample_session [sample_interval]) 1 6 0
     = (Inr (Inr 2), 1)
   \<and> render_media sample_render (set_intervals sample_session [sample_interval])
       ''out.mp4'' () 0
     = (Inr (Inr ()), 1)"
    by simp
  from i n s a b show ?thesis by simp
qed

text \<open>
  C10. \<open>__init__\<close> raises exactly when the status of ffmpeg is \<open>not_detected\<close> or
  \<open>requirements_unsatisfied\<close>, and what it raises then is an \<open>EnvironmentError\<close>.
  With the status \<open>unknown_version\<close> it returns the session, having printed one
  warning to stderr and registered the cleanup, and checks no version.
\<close>

theorem init_environment_error:
  "((\<exists>msg. fst (unsilence_init status input temp env :: (error + 'ivs unsilence) \<times> interpreter)
            = Inl (EnvironmentError msg))
      \<longleftrightarrow> status = ''not_detected'' \<or> status = ''requirements_unsatisfied'')
   \<and> ((\<exists>e. fst (unsilence_init status input temp env :: (error + 'ivs unsilence) \<times> interpreter)
            = Inl e)
      \<longleftrightarrow> status = ''not_detected'' \<or> status = ''requirements_unsatisfied'')
   \<and> (unsilence_init ''unknown_version'' input temp env
          :: (error + 'ivs unsilence) \<times> interpreter)
      = (Inr \<lparr>session_input_file = input, session_temp_dir = temp,
               session_intervals = None\<rparr>,
         env\<lparr>stderr := stderr env @
               [''Could not detect ffmpeg version, proceed at your own risk! (version >= 4.2.4 required)''],
             atexit := atexit env @ [temp]\<rparr>)"
  by (simp add: unsilence_init_def Let_def)

end
